theory Spec2Isabelle
  imports Main "HOL-Library.Word" "HOL-Library.Char_ord"
begin

section \<open>The endpoint package: data model\<close>

text \<open>
  A Go \<open>string\<close> is a sequence of bytes, which is what \<^typ>\<open>string\<close> (a list of 8-bit
  \<^typ>\<open>char\<close>) is. \<open>TTL\<close> is an \<open>int64\<close>: a 64-bit word read as a signed number.
  A Go map is a reference that may be \<open>nil\<close>: reading a nil map yields the zero value,
  writing to it panics. So \<open>Labels\<close> is an optional finite map, \<open>None\<close> for nil.
\<close>

type_synonym TTL = "64 word"

type_synonym labels = "(string \<rightharpoonup> string) option"

record GeoLocation =
  ContinentCode :: string
  CountryCode :: string
  SubdivisionCode :: string

record Endpoint =
  DNSName :: string
  Target :: string
  RecordType :: string
  RecordTTL :: TTL
  Labels :: labels
  GeoLocation :: GeoLocation

definition OwnerLabelKey :: string where
  "OwnerLabelKey = ''owner''"

definition RecordTypeA :: string where
  "RecordTypeA = ''A''"

definition RecordTypeCNAME :: string where
  "RecordTypeCNAME = ''CNAME''"

definition RecordTypeTXT :: string where
  "RecordTypeTXT = ''TXT''"

subsection \<open>The library functions the package calls\<close>

text \<open>\<open>strings.HasSuffix\<close> and \<open>strings.TrimSuffix\<close> of the Go standard library.\<close>

definition HasSuffix :: "string \<Rightarrow> string \<Rightarrow> bool" where
  "HasSuffix s suffix =
     (length s \<ge> length suffix \<and> drop (length s - length suffix) s = suffix)"

definition TrimSuffix :: "string \<Rightarrow> string \<Rightarrow> string" where
  "TrimSuffix s suffix =
     (if HasSuffix s suffix then take (length s - length suffix) s else s)"

subsection \<open>TTL\<close>

definition IsConfigured :: "TTL \<Rightarrow> bool" where
  "IsConfigured ttl = (0 <s ttl)"

subsection \<open>Constructors\<close>

definition NewEndpointWithTTL :: "string \<Rightarrow> string \<Rightarrow> string \<Rightarrow> TTL \<Rightarrow> Endpoint" where
  "NewEndpointWithTTL dnsName target recordType ttl =
     \<lparr> DNSName = TrimSuffix dnsName ''.'',
       Target = TrimSuffix target ''.'',
       RecordType = recordType,
       RecordTTL = ttl,
       Labels = Some Map.empty,
       GeoLocation = \<lparr> ContinentCode = [], CountryCode = [], SubdivisionCode = [] \<rparr> \<rparr>"

definition NewEndpoint :: "string \<Rightarrow> string \<Rightarrow> string \<Rightarrow> Endpoint" where
  "NewEndpoint dnsName target recordType = NewEndpointWithTTL dnsName target recordType 0"

subsection \<open>Regular expressions\<close>

text \<open>
  The setters validate with \<open>regexp.Match(pattern, []byte(code))\<close>, which reports whether
  the text contains any match of the pattern. The patterns use this fragment of Go's (RE2)
  syntax: literal characters, a character range \<open>[A-Z]\<close>, alternation, concatenation,
  \<open>?\<close>, the counted repetition \<open>{n,m}\<close>, and the anchors \<open>^\<close> and \<open>$\<close>, which without
  flags stand for the beginning and the end of the whole text. A position in the text is
  the pair of "nothing consumed so far" and the remaining bytes. All literals and ranges
  of the patterns are ASCII, so a byte at or above \<open>0x80\<close> matches none of them, as the
  rune decoded from it would not.
\<close>

datatype regex =
    EmptyMatch
  | Literal char
  | CharRange char char
  | BeginText
  | EndText
  | Concat regex regex
  | Alternate regex regex
  | Quest regex

type_synonym position = "bool \<times> string"

fun ends :: "regex \<Rightarrow> position \<Rightarrow> position list" where
  "ends EmptyMatch p = [p]"
| "ends (Literal c) (at0, s) =
     (case s of [] \<Rightarrow> [] | x # xs \<Rightarrow> if x = c then [(False, xs)] else [])"
| "ends (CharRange lo hi) (at0, s) =
     (case s of [] \<Rightarrow> [] | x # xs \<Rightarrow> if lo \<le> x \<and> x \<le> hi then [(False, xs)] else [])"
| "ends BeginText (at0, s) = (if at0 then [(at0, s)] else [])"
| "ends EndText (at0, s) = (if s = [] then [(at0, s)] else [])"
| "ends (Concat r1 r2) p = concat (map (\<lambda>q. ends r2 q) (ends r1 p))"
| "ends (Alternate r1 r2) p = ends r1 p @ ends r2 p"
| "ends (Quest r) p = ends r p @ [p]"

text \<open>
  \<open>r{n,m}\<close> is \<open>n\<close> copies of \<open>r\<close> followed by up to \<open>m - n\<close> further ones, nested as
  \<open>(r(r)?)?\<close>; this is how Go's \<open>regexp/syntax\<close> simplifies a counted repetition.
\<close>

fun Copies :: "nat \<Rightarrow> regex \<Rightarrow> regex" where
  "Copies 0 r = EmptyMatch"
| "Copies (Suc n) r = Concat r (Copies n r)"

fun UpTo :: "nat \<Rightarrow> regex \<Rightarrow> regex" where
  "UpTo 0 r = EmptyMatch"
| "UpTo (Suc n) r = Quest (Concat r (UpTo n r))"

definition Repeat :: "nat \<Rightarrow> nat \<Rightarrow> regex \<Rightarrow> regex" where
  "Repeat n m r = Concat (Copies n r) (UpTo (m - n) r)"

fun Alternatives :: "regex list \<Rightarrow> regex" where
  "Alternatives [] = EmptyMatch"
| "Alternatives [r] = r"
| "Alternatives (r # rs) = Alternate r (Alternatives rs)"

fun LiteralString :: "string \<Rightarrow> regex" where
  "LiteralString [] = EmptyMatch"
| "LiteralString [c] = Literal c"
| "LiteralString (c # cs) = Concat (Literal c) (LiteralString cs)"

text \<open>A match may start at any position of the text.\<close>

fun search :: "regex \<Rightarrow> position \<Rightarrow> bool" where
  "search r (at0, []) = (ends r (at0, []) \<noteq> [])"
| "search r (at0, x # xs) = (ends r (at0, x # xs) \<noteq> [] \<or> search r (False, xs))"

definition regexp_Match :: "regex \<Rightarrow> string \<Rightarrow> bool" where
  "regexp_Match pattern b = search pattern (True, b)"

text \<open>The three patterns of the package, as parsed.\<close>

definition continentCodePattern :: regex where
  \<comment> \<open>\<^verbatim>\<open>^(AF|AN|AS|EU|OC|NA|SA|\*)?$\<close>\<close>
  "continentCodePattern =
     Concat BeginText
       (Concat (Quest (Alternatives
          [LiteralString ''AF'', LiteralString ''AN'', LiteralString ''AS'',
           LiteralString ''EU'', LiteralString ''OC'', LiteralString ''NA'',
           LiteralString ''SA'', Literal (CHR ''*'')]))
        EndText)"

definition countryCodePattern :: regex where
  \<comment> \<open>\<^verbatim>\<open>^([A-Z]{1,2}|\*)?$\<close>\<close>
  "countryCodePattern =
     Concat BeginText
       (Concat (Quest (Alternate (Repeat 1 2 (CharRange (CHR ''A'') (CHR ''Z'')))
                                 (Literal (CHR ''*''))))
        EndText)"

definition subdivisionCodePattern :: regex where
  \<comment> \<open>\<^verbatim>\<open>^([A-Z]{1,3})?$\<close>\<close>
  "subdivisionCodePattern =
     Concat BeginText
       (Concat (Quest (Repeat 1 3 (CharRange (CHR ''A'') (CHR ''Z''))))
        EndText)"

subsection \<open>Formatting\<close>

text \<open>
  \<open>fmt.Sprintf\<close> on the fragment of \<open>fmt\<close> the package uses: literal text, the verb
  \<open>%s\<close> on a string operand and the verb \<open>%d\<close> on an integer operand (here always a
  \<open>TTL\<close>, which has no \<open>String\<close> method and so prints as the signed decimal number).
  Every call of the package supplies exactly the operands its format names; any other
  directive is outside the fragment and is copied as text. \<open>FormatInt\<close> is the decimal
  rendering of \<open>strconv\<close>.
\<close>

definition digit :: "nat \<Rightarrow> char" where
  "digit d = ''0123456789'' ! (d mod 10)"

function digits :: "nat \<Rightarrow> string" where
  "digits n = (if n < 10 then [digit n] else digits (n div 10) @ [digit (n mod 10)])"
  by pat_completeness auto
termination
  by (relation "measure id") auto

declare digits.simps [simp del]

definition FormatInt :: "int \<Rightarrow> string" where
  "FormatInt i = (if i < 0 then CHR ''-'' # digits (nat (- i)) else digits (nat i))"

datatype operand = StringArg string | TTLArg TTL

fun Sprintf :: "string \<Rightarrow> operand list \<Rightarrow> string" where
  "Sprintf [] args = []"
| "Sprintf [c] args = [c]"
| "Sprintf (c # v # f) args =
     (if c = CHR ''%'' \<and> v = CHR ''s'' then
        (case args of StringArg x # rest \<Rightarrow> x @ Sprintf f rest
                    | _ \<Rightarrow> c # Sprintf (v # f) args)
      else if c = CHR ''%'' \<and> v = CHR ''d'' then
        (case args of TTLArg t # rest \<Rightarrow> FormatInt (sint t) @ Sprintf f rest
                    | _ \<Rightarrow> c # Sprintf (v # f) args)
      else c # Sprintf (v # f) args)"

text \<open>
  A Go \<open>error\<close> made by \<open>fmt.Errorf\<close> is its message; a returned \<open>nil\<close> is \<open>None\<close>.
\<close>

type_synonym error = string

definition Errorf :: "string \<Rightarrow> operand list \<Rightarrow> error" where
  "Errorf format args = Sprintf format args"

subsection \<open>Labels\<close>

text \<open>
  Reading a key of a Go map yields the empty string when the key is absent or the map is
  nil. Assigning to a key of a nil map panics.
\<close>

datatype panic = AssignmentToEntryInNilMap

fun index :: "labels \<Rightarrow> string \<Rightarrow> string" where
  "index None k = []"
| "index (Some m) k = (case m k of None \<Rightarrow> [] | Some v \<Rightarrow> v)"

fun assign :: "labels \<Rightarrow> string \<Rightarrow> string \<Rightarrow> panic + labels" where
  "assign None k v = Inl AssignmentToEntryInNilMap"
| "assign (Some m) k v = Inr (Some (m(k \<mapsto> v)))"

text \<open>
  \<open>MergeLabels\<close> ranges over its argument, a Go map, which visits every key once in an
  unspecified order; the argument is given as the sequence of key and value pairs in the
  order of the visit (empty for an empty or nil map). The receiver is returned updated,
  unless an assignment panics.
\<close>

fun MergeLabels :: "Endpoint \<Rightarrow> (string \<times> string) list \<Rightarrow> panic + Endpoint" where
  "MergeLabels e [] = Inr e"
| "MergeLabels e ((k, v) # kvs) =
     (if index (Labels e) k = [] then
        (case assign (Labels e) k v of
           Inl p \<Rightarrow> Inl p
         | Inr l \<Rightarrow> MergeLabels (e\<lparr>Labels := l\<rparr>) kvs)
      else MergeLabels e kvs)"

subsection \<open>The geolocation setters\<close>

text \<open>
  A setter returns an error or \<open>nil\<close>, may update its receiver, and passes the error it
  returns to \<open>log.Error\<close>. The error that \<open>regexp.Match\<close> returns for a pattern that
  does not compile is dropped by the code; the three patterns compile.
\<close>

record SetterResult =
  returned :: "error option"
  receiver :: Endpoint
  logged :: "error list"

definition SetContinentCode :: "Endpoint \<Rightarrow> string \<Rightarrow> SetterResult" where
  "SetContinentCode e continentCode =
     (if regexp_Match continentCodePattern continentCode then
        \<lparr> returned = None,
          receiver = e\<lparr>GeoLocation := (GeoLocation e)\<lparr>ContinentCode := continentCode\<rparr>\<rparr>,
          logged = [] \<rparr>
      else
        let err = Errorf ''%s is not a valid ContinentCode format, expected 'AF|AN|AS|EU|OC|NA|SA|*' or empty string''
                    [StringArg continentCode]
        in \<lparr> returned = Some err, receiver = e, logged = [err] \<rparr>)"

definition SetCountryCode :: "Endpoint \<Rightarrow> string \<Rightarrow> SetterResult" where
  "SetCountryCode e countryCode =
     (if regexp_Match countryCodePattern countryCode then
        \<lparr> returned = None,
          receiver = e\<lparr>GeoLocation := (GeoLocation e)\<lparr>CountryCode := countryCode\<rparr>\<rparr>,
          logged = [] \<rparr>
      else
        let err = Errorf ''%s is not a valid SubdivisionCode format, expected 1-2 uppercase characters, *  or empty string''
                    [StringArg countryCode]
        in \<lparr> returned = Some err, receiver = e, logged = [err] \<rparr>)"

definition SetSubdivisionCode :: "Endpoint \<Rightarrow> string \<Rightarrow> SetterResult" where
  "SetSubdivisionCode e subdivisionCode =
     (if regexp_Match subdivisionCodePattern subdivisionCode then
        \<lparr> returned = None,
          receiver = e\<lparr>GeoLocation := (GeoLocation e)\<lparr>SubdivisionCode := subdivisionCode\<rparr>\<rparr>,
          logged = [] \<rparr>
      else
        let err = Errorf ''%s is not a valid SubdivisionCode format, expected 1-3 uppercase characters or empty string''
                    [StringArg subdivisionCode]
        in \<lparr> returned = Some err, receiver = e, logged = [err] \<rparr>)"

subsection \<open>Textual form\<close>

definition String :: "Endpoint \<Rightarrow> string" where
  "String e =
     Sprintf ''%s %d IN %s %s''
       [StringArg (DNSName e), TTLArg (RecordTTL e), StringArg (RecordType e),
        StringArg (Target e)]"

subsection \<open>Sequences of operations\<close>

text \<open>
  The states an endpoint reaches are those a sequence of the four mutating operations
  produces from a constructed endpoint. A setter that rejects its argument leaves the
  endpoint as it was and the sequence goes on; a panic ends it.
\<close>

datatype operation =
    OpMergeLabels "(string \<times> string) list"
  | OpSetContinentCode string
  | OpSetCountryCode string
  | OpSetSubdivisionCode string

fun apply_operation :: "Endpoint \<Rightarrow> operation \<Rightarrow> panic + Endpoint" where
  "apply_operation e (OpMergeLabels kvs) = MergeLabels e kvs"
| "apply_operation e (OpSetContinentCode c) = Inr (receiver (SetContinentCode e c))"
| "apply_operation e (OpSetCountryCode c) = Inr (receiver (SetCountryCode e c))"
| "apply_operation e (OpSetSubdivisionCode c) = Inr (receiver (SetSubdivisionCode e c))"

fun apply_operations :: "Endpoint \<Rightarrow> operation list \<Rightarrow> panic + Endpoint" where
  "apply_operations e [] = Inr e"
| "apply_operations e (x # xs) =
     (case apply_operation e x of
        Inl p \<Rightarrow> Inl p
      | Inr e' \<Rightarrow> apply_operations e' xs)"

subsection \<open>The formats as the specification words them\<close>

definition upper_letters :: string where
  "upper_letters = ''ABCDEFGHIJKLMNOPQRSTUVWXYZ''"

definition isUpper :: "char \<Rightarrow> bool" where
  "isUpper c = (c \<in> set upper_letters)"

definition continentCodeFormat :: "string \<Rightarrow> bool" where
  "continentCodeFormat code =
     (code \<in> set ['''', ''AF'', ''AN'', ''AS'', ''EU'', ''OC'', ''NA'', ''SA'', ''*''])"

definition countryCodeFormat :: "string \<Rightarrow> bool" where
  "countryCodeFormat code =
     (code = [] \<or> code = ''*''
      \<or> (1 \<le> length code \<and> length code \<le> 2 \<and> list_all isUpper code))"

definition subdivisionCodeFormat :: "string \<Rightarrow> bool" where
  "subdivisionCodeFormat code =
     (code = [] \<or> (1 \<le> length code \<and> length code \<le> 3 \<and> list_all isUpper code))"

section \<open>Properties\<close>

subsection \<open>Trailing dots\<close>

lemma HasSuffix_dot: "HasSuffix s ''.'' \<longleftrightarrow> (\<exists>p. s = p @ ''.'')"
proof
  assume h: "HasSuffix s ''.''"
  then have "s \<noteq> []" by (auto simp: HasSuffix_def)
  moreover from h have "last s = CHR ''.''"
    by (cases s rule: rev_cases) (auto simp: HasSuffix_def)
  ultimately have "s = butlast s @ ''.''" by (metis append_butlast_last_id)
  then show "\<exists>p. s = p @ ''.''" ..
next
  assume "\<exists>p. s = p @ ''.''"
  then show "HasSuffix s ''.''" by (auto simp: HasSuffix_def)
qed

lemma TrimSuffix_dot_snoc: "TrimSuffix (p @ ''.'') ''.'' = p"
  by (simp add: TrimSuffix_def HasSuffix_def)

lemma TrimSuffix_dot_id: "\<not> HasSuffix s ''.'' \<Longrightarrow> TrimSuffix s ''.'' = s"
  by (simp add: TrimSuffix_def)

text \<open>
  C5. \<open>IsConfigured\<close> is true exactly when the TTL, read as a signed 64-bit number, is
  greater than zero; it is false for zero and for every negative TTL.
\<close>

theorem IsConfigured_iff_positive:
  "(IsConfigured ttl \<longleftrightarrow> 0 < sint ttl)
   \<and> (sint ttl = 0 \<longrightarrow> \<not> IsConfigured ttl)
   \<and> (sint ttl < 0 \<longrightarrow> \<not> IsConfigured ttl)"
  by (simp add: IsConfigured_def word_sless_alt)

theorem IsConfigured_iff_positive_witness:
  "IsConfigured (300 :: TTL) \<and> \<not> IsConfigured (0 :: TTL) \<and> \<not> IsConfigured (- 1 :: TTL)"
  using IsConfigured_iff_positive [of 300] IsConfigured_iff_positive [of 0]
    IsConfigured_iff_positive [of "- 1"]
  by simp

end
